theory Spec2Isabelle
  imports Complex_Main "HOL-Library.Sublist"
begin

section \<open>Data model\<close>

text \<open>
  The Python exceptions that the modelled functions can raise.  A function that can raise
  returns \<open>py_error + 'a\<close>, with \<open>Inl\<close> for the exception.
\<close>

datatype py_error = KeyError | TypeError

text \<open>
  A naive \<open>datetime\<close> is its number of microseconds on the local time line;
  \<open>timedelta(days=d)\<close> and \<open>timedelta(hours=h)\<close> are numbers of microseconds.
  The time line is unbounded: the \<open>OverflowError\<close> of a date before year 1 or after year
  9999 (a retention of some two thousand years) is not modelled.
  Python numbers (the gauges of a snapshot, which are floats rounded by the metric source)
  are modelled as exact reals: comparisons are exact, float rounding error is not modelled.
\<close>

type_synonym datetime = int


definition timedelta_hours :: "int \<Rightarrow> int" where
  "timedelta_hours h = h * 3600000000"

text \<open>
  The value stored under the key \<open>'timestamp'\<close>, represented by what
  \<open>datetime.fromisoformat\<close> and the comparison with \<open>datetime.now()\<close> do with it:
  \<^item> \<open>Naive t\<close>: the ISO string of a naive datetime \<open>t\<close> (what \<open>isoformat()\<close> of
    \<open>datetime.now()\<close> writes); it parses to \<open>t\<close>;
  \<^item> \<open>Aware t\<close>: an ISO string with a UTC offset; it parses, and comparing the result
    with the naive \<open>datetime.now()\<close> raises \<open>TypeError\<close>;
  \<^item> \<open>Invalid s\<close>: a string \<open>s\<close> that \<open>fromisoformat\<close> rejects with \<open>ValueError\<close>;
  \<^item> \<open>NonString\<close>: a JSON value that is not a string; \<open>fromisoformat\<close> raises
    \<open>TypeError\<close>.
  A missing key is \<open>None\<close> in the entry.
\<close>

datatype timestamp = Naive datetime | Aware datetime | Invalid string | NonString

record disk =
  mount :: "string option"
  used_percent :: "real option"

record container =
  name :: "string option"
  status :: "string option"
  restarts :: "int option"
  mem_mb :: "real option"
  container_cpu_percent :: "real option"
  errors :: "string list option"

text \<open>
  One history entry (a metrics snapshot): the keys of the dictionary that the modelled
  functions read.  Each key may be absent (\<open>None\<close>).
\<close>

record entry =
  timestamp :: "timestamp option"
  cpu_percent :: "real option"
  ram_percent :: "real option"
  disks :: "disk list option"
  containers :: "container list option"

section \<open>utils/storage.py: HealthStorage\<close>

text \<open>
  The history file either holds a JSON list of entries, or is missing, not valid JSON or
  not a list (\<open>Unreadable\<close>).
\<close>

datatype file_content = Unreadable | Document "entry list"

record HealthStorage =
  history_file :: file_content
  retention_days :: int

definition load_history :: "HealthStorage \<Rightarrow> entry list" where
  "load_history self = (case history_file self of Document data \<Rightarrow> data | Unreadable \<Rightarrow> [])"






text \<open>The loop of \<open>get_last_24h\<close>: here \<open>KeyError\<close> and \<open>ValueError\<close> skip the entry.\<close>

fun last_24h_loop :: "datetime \<Rightarrow> entry list \<Rightarrow> entry list \<Rightarrow> py_error + entry list" where
  "last_24h_loop cutoff [] filtered = Inr filtered"
| "last_24h_loop cutoff (e # history) filtered =
     (case timestamp e of
        None \<Rightarrow> last_24h_loop cutoff history filtered
      | Some (Naive entry_time) \<Rightarrow>
          if entry_time \<ge> cutoff then last_24h_loop cutoff history (filtered @ [e])
          else last_24h_loop cutoff history filtered
      | Some (Aware entry_time) \<Rightarrow> Inl TypeError
      | Some (Invalid s) \<Rightarrow> last_24h_loop cutoff history filtered
      | Some NonString \<Rightarrow> Inl TypeError)"

definition get_last_24h :: "HealthStorage \<Rightarrow> datetime \<Rightarrow> py_error + entry list" where
  "get_last_24h self now = last_24h_loop (now - timedelta_hours 24) (load_history self) []"

fun entries_between_loop ::
  "datetime \<Rightarrow> datetime \<Rightarrow> entry list \<Rightarrow> entry list \<Rightarrow> py_error + entry list" where
  "entries_between_loop start end [] filtered = Inr filtered"
| "entries_between_loop start end (e # history) filtered =
     (case timestamp e of
        None \<Rightarrow> entries_between_loop start end history filtered
      | Some (Naive entry_time) \<Rightarrow>
          if start \<le> entry_time \<and> entry_time \<le> end
          then entries_between_loop start end history (filtered @ [e])
          else entries_between_loop start end history filtered
      | Some (Aware entry_time) \<Rightarrow> Inl TypeError
      | Some (Invalid s) \<Rightarrow> entries_between_loop start end history filtered
      | Some NonString \<Rightarrow> Inl TypeError)"

definition get_entries_between ::
  "HealthStorage \<Rightarrow> datetime \<Rightarrow> datetime \<Rightarrow> py_error + entry list" where
  "get_entries_between self start end = entries_between_loop start end (load_history self) []"





text \<open>An entry that carries nothing but (possibly) a timestamp, for the examples.\<close>

definition bare_entry :: "timestamp option \<Rightarrow> entry" where
  "bare_entry ts =
     \<lparr>timestamp = ts, cpu_percent = None, ram_percent = None, disks = None, containers = None\<rparr>"

section \<open>utils/metrics.py: the threshold check\<close>

text \<open>
  The threshold configuration: the six keys that \<open>check_thresholds\<close> reads, each
  possibly absent.
\<close>

record thresholds =
  cpu_warning :: "real option"
  cpu_critical :: "real option"
  ram_warning :: "real option"
  ram_critical :: "real option"
  disk_warning :: "real option"
  disk_critical :: "real option"

text \<open>
  The violation messages are formatted strings; each is represented by its format and the
  values it interpolates:
  \<open>CpuCritical v\<close> is \<open>f"CPU usage critical: {cpu}%"\<close>, \<open>CpuHigh v\<close> is
  \<open>f"CPU usage high: {cpu}%"\<close>, \<open>RamCritical\<close> and \<open>RamHigh\<close> likewise,
  \<open>DiskCritical m v\<close> is \<open>f"Disk {mount} critical: {used}%"\<close> and \<open>DiskHigh m v\<close> is
  \<open>f"Disk {mount} high: {used}%"\<close>.
\<close>

datatype message =
    CpuCritical real | CpuHigh real
  | RamCritical real | RamHigh real
  | DiskCritical string real | DiskHigh string real

record violations =
  warnings :: "message list"
  critical :: "message list"

text \<open>Python's \<open>d.get(key, default)\<close> on a key that may be absent.\<close>

definition dict_get :: "'a option \<Rightarrow> 'a \<Rightarrow> 'a" where
  "dict_get v dflt = (case v of None \<Rightarrow> dflt | Some x \<Rightarrow> x)"

text \<open>The loop over the disks; \<open>disk['used_percent']\<close> and \<open>disk['mount']\<close> raise
  \<open>KeyError\<close> on a missing key.\<close>

fun check_disks :: "thresholds \<Rightarrow> disk list \<Rightarrow> violations \<Rightarrow> py_error + violations" where
  "check_disks th [] v = Inr v"
| "check_disks th (d # ds) v =
     (case used_percent d of
        None \<Rightarrow> Inl KeyError
      | Some used \<Rightarrow>
         (case mount d of
            None \<Rightarrow> Inl KeyError
          | Some m \<Rightarrow>
              if used \<ge> dict_get (disk_critical th) 90
              then check_disks th ds (v\<lparr>critical := critical v @ [DiskCritical m used]\<rparr>)
              else if used \<ge> dict_get (disk_warning th) 80
              then check_disks th ds (v\<lparr>warnings := warnings v @ [DiskHigh m used]\<rparr>)
              else check_disks th ds v))"

definition check_cpu :: "entry \<Rightarrow> thresholds \<Rightarrow> violations \<Rightarrow> violations" where
  "check_cpu metrics th v =
     (let cpu = dict_get (cpu_percent metrics) 0
      in if cpu \<ge> dict_get (cpu_critical th) 95
         then v\<lparr>critical := critical v @ [CpuCritical cpu]\<rparr>
         else if cpu \<ge> dict_get (cpu_warning th) 80
         then v\<lparr>warnings := warnings v @ [CpuHigh cpu]\<rparr>
         else v)"

definition check_ram :: "entry \<Rightarrow> thresholds \<Rightarrow> violations \<Rightarrow> violations" where
  "check_ram metrics th v =
     (let ram_pct = dict_get (ram_percent metrics) 0
      in if ram_pct \<ge> dict_get (ram_critical th) 95
         then v\<lparr>critical := critical v @ [RamCritical ram_pct]\<rparr>
         else if ram_pct \<ge> dict_get (ram_warning th) 85
         then v\<lparr>warnings := warnings v @ [RamHigh ram_pct]\<rparr>
         else v)"

definition check_thresholds :: "entry \<Rightarrow> thresholds \<Rightarrow> py_error + violations" where
  "check_thresholds metrics th =
     (let v = \<lparr>warnings = [], critical = []\<rparr>;
          v = check_cpu metrics th v;
          v = check_ram metrics th v
      in check_disks th (dict_get (disks metrics) []) v)"

text \<open>
  The classification in the words of the specification: critical if the value reaches the
  critical level, else warning if it reaches the warning level, else no report.
\<close>

datatype severity = Info | Warning | Critical

definition spec_classify :: "real \<Rightarrow> real \<Rightarrow> real \<Rightarrow> severity option" where
  "spec_classify v warning_level critical_level =
     (if v \<ge> critical_level then Some Critical
      else if v \<ge> warning_level then Some Warning
      else None)"

text \<open>
  Fixtures for the examples: a snapshot with a CPU gauge and disks, a configuration without
  any level, and the levels of the default configuration in \<open>monitor.load_config\<close>.
\<close>

definition gauges :: "real \<Rightarrow> disk list \<Rightarrow> entry" where
  "gauges cpu ds =
     \<lparr>timestamp = None, cpu_percent = Some cpu, ram_percent = None, disks = Some ds,
      containers = None\<rparr>"

definition no_thresholds :: thresholds where
  "no_thresholds =
     \<lparr>cpu_warning = None, cpu_critical = None, ram_warning = None, ram_critical = None,
      disk_warning = None, disk_critical = None\<rparr>"

definition default_thresholds :: thresholds where
  "default_thresholds =
     \<lparr>cpu_warning = Some 80, cpu_critical = Some 95, ram_warning = Some 85,
      ram_critical = Some 95, disk_warning = Some 80, disk_critical = Some 90\<rparr>"

section \<open>reporter.py: container health and problem ranking\<close>

text \<open>
  Python's \<open>round(x, 2)\<close>: the nearest number with two decimals, a tie going to the even
  last digit.  On exact reals; the float error of the division is not modelled.
\<close>

definition round_half_even :: "real \<Rightarrow> int" where
  "round_half_even x =
     (let f = \<lfloor>x\<rfloor>; r = x - of_int f
      in if r < 1 / 2 then f else if r > 1 / 2 then f + 1 else if even f then f else f + 1)"

definition py_round2 :: "real \<Rightarrow> real" where
  "py_round2 x = of_int (round_half_even (x * 100)) / 100"

text \<open>Python's slice \<open>xs[:n]\<close>; a negative \<open>n\<close> counts from the end.\<close>

definition py_slice_to :: "int \<Rightarrow> 'a list \<Rightarrow> 'a list" where
  "py_slice_to n xs =
     (if n \<ge> 0 then take (nat n) xs else take (length xs - nat (- n)) xs)"

record reporting_config =
  top_memory_containers :: "int option"
  top_cpu_containers :: "int option"
  max_errors_in_report :: "int option"

record config =
  reporting :: "reporting_config option"

text \<open>
  The per-container dictionary that the first loop of \<open>analyze_container_health\<close> builds
  (\<open>raw_stats\<close>), and the same dictionary with the keys that the second loop adds
  (\<open>stats\<close>).  The fields \<open>stats_name\<close> and \<open>stats_errors\<close> are the keys \<open>'name'\<close> and
  \<open>'errors'\<close>.
\<close>

record raw_stats =
  stats_name :: string
  uptime_checks :: nat
  down_checks :: nat
  total_restarts :: int
  stats_errors :: "string list"
  mem_values :: "real list"
  cpu_values :: "real list"

record stats = raw_stats +
  uptime_percent :: real
  avg_mem_mb :: real
  max_mem_mb :: real
  avg_cpu_percent :: real
  max_cpu_percent :: real

definition new_stats :: "string \<Rightarrow> raw_stats" where
  "new_stats n =
     \<lparr>stats_name = n, uptime_checks = 0, down_checks = 0, total_restarts = 0,
      stats_errors = [], mem_values = [], cpu_values = []\<rparr>"

text \<open>
  \<open>container_stats\<close> is a Python dictionary, which keeps its keys in insertion order:
  an association list with distinct keys.  Assigning to a key keeps its place, a new key
  goes last.
\<close>

fun dict_set :: "'k \<Rightarrow> 'v \<Rightarrow> ('k \<times> 'v) list \<Rightarrow> ('k \<times> 'v) list" where
  "dict_set k v [] = [(k, v)]"
| "dict_set k v (kv # kvs) = (if fst kv = k then (k, v) # kvs else kv # dict_set k v kvs)"

text \<open>The loop \<open>for error in container.get('errors', [])\<close>.\<close>

fun collect_errors :: "string list \<Rightarrow> string list \<Rightarrow> string list" where
  "collect_errors [] errs = errs"
| "collect_errors (error # rest) errs =
     collect_errors rest (if error \<notin> set errs then errs @ [error] else errs)"

text \<open>\<open>if container.get(key): values.append(container[key])\<close>: an absent or zero
  sample is skipped.\<close>

definition append_sample :: "real option \<Rightarrow> real list \<Rightarrow> real list" where
  "append_sample v values =
     (case v of None \<Rightarrow> values | Some x \<Rightarrow> if x \<noteq> 0 then values @ [x] else values)"

text \<open>
  The body of the inner loop, for one container record.  \<open>container['name']\<close> and
  \<open>container['status']\<close> raise \<open>KeyError\<close> on a missing key.
\<close>

definition observe ::
  "container \<Rightarrow> (string \<times> raw_stats) list \<Rightarrow> py_error + (string \<times> raw_stats) list" where
  "observe c container_stats =
     (case name c of
        None \<Rightarrow> Inl KeyError
      | Some n \<Rightarrow>
         (let st = (case map_of container_stats n of None \<Rightarrow> new_stats n | Some st \<Rightarrow> st)
          in case status c of
               None \<Rightarrow> Inl KeyError
             | Some s \<Rightarrow>
                (let st = (if s = ''running'' then st\<lparr>uptime_checks := uptime_checks st + 1\<rparr>
                           else st\<lparr>down_checks := down_checks st + 1\<rparr>);
                     st = st\<lparr>total_restarts := max (total_restarts st) (dict_get (restarts c) 0)\<rparr>;
                     st = st\<lparr>mem_values := append_sample (mem_mb c) (mem_values st)\<rparr>;
                     st = st\<lparr>cpu_values := append_sample (container_cpu_percent c) (cpu_values st)\<rparr>;
                     st = st\<lparr>stats_errors := collect_errors (dict_get (errors c) []) (stats_errors st)\<rparr>
                 in Inr (dict_set n st container_stats))))"

fun observe_containers ::
  "container list \<Rightarrow> (string \<times> raw_stats) list \<Rightarrow> py_error + (string \<times> raw_stats) list" where
  "observe_containers [] container_stats = Inr container_stats"
| "observe_containers (c # cs) container_stats =
     (case observe c container_stats of
        Inl err \<Rightarrow> Inl err
      | Inr container_stats' \<Rightarrow> observe_containers cs container_stats')"

fun observe_history ::
  "entry list \<Rightarrow> (string \<times> raw_stats) list \<Rightarrow> py_error + (string \<times> raw_stats) list" where
  "observe_history [] container_stats = Inr container_stats"
| "observe_history (e # history) container_stats =
     (case observe_containers (dict_get (containers e) []) container_stats of
        Inl err \<Rightarrow> Inl err
      | Inr container_stats' \<Rightarrow> observe_history history container_stats')"

text \<open>The body of the second loop: the derived keys of one container.\<close>

definition finalize :: "reporting_config \<Rightarrow> raw_stats \<Rightarrow> stats" where
  "finalize rep st =
     (let total_checks = uptime_checks st + down_checks st
      in \<lparr>stats_name = stats_name st,
          uptime_checks = uptime_checks st,
          down_checks = down_checks st,
          total_restarts = total_restarts st,
          stats_errors = py_slice_to (dict_get (max_errors_in_report rep) 10) (stats_errors st),
          mem_values = mem_values st,
          cpu_values = cpu_values st,
          uptime_percent =
            (if total_checks > 0
             then py_round2 (real (uptime_checks st) / real total_checks * 100) else 0),
          avg_mem_mb =
            (if mem_values st \<noteq> []
             then py_round2 (sum_list (mem_values st) / real (length (mem_values st))) else 0),
          max_mem_mb =
            (case mem_values st of [] \<Rightarrow> 0 | x # xs \<Rightarrow> py_round2 (fold max xs x)),
          avg_cpu_percent =
            (if cpu_values st \<noteq> []
             then py_round2 (sum_list (cpu_values st) / real (length (cpu_values st))) else 0),
          max_cpu_percent =
            (case cpu_values st of [] \<Rightarrow> 0 | x # xs \<Rightarrow> py_round2 (fold max xs x))\<rparr>)"

text \<open>
  \<open>config['reporting']\<close> is read inside the second loop, so a configuration without that
  key raises \<open>KeyError\<close> only when there is a container to finalize.
\<close>

definition analyze_container_health ::
  "entry list \<Rightarrow> config \<Rightarrow> py_error + (string \<times> stats) list" where
  "analyze_container_health history cfg =
     (case observe_history history [] of
        Inl err \<Rightarrow> Inl err
      | Inr container_stats \<Rightarrow>
          if container_stats = [] then Inr []
          else (case reporting cfg of
                  None \<Rightarrow> Inl KeyError
                | Some rep \<Rightarrow> Inr (map (\<lambda>(n, st). (n, finalize rep st)) container_stats)))"

text \<open>
  The issue strings of \<open>identify_problematic_containers\<close>, by format:
  \<open>UptimeIssue p\<close> is \<open>f"Uptime: {p}%"\<close>, \<open>RestartsIssue n\<close> is \<open>f"{n} restarts"\<close>,
  \<open>ErrorTypesIssue k\<close> is \<open>f"{k} error types"\<close>.
\<close>

datatype issue = UptimeIssue real | RestartsIssue int | ErrorTypesIssue nat

record problem =
  problem_name :: string
  severity :: severity
  issues :: "issue list"
  problem_errors :: "string list"
  problem_uptime_percent :: real
  problem_restarts :: int
  problem_avg_mem_mb :: real

text \<open>The three checks of the loop body, on the pair of \<open>issues\<close> and \<open>severity\<close>.\<close>

definition check_uptime :: "stats \<Rightarrow> issue list \<times> severity \<Rightarrow> issue list \<times> severity" where
  "check_uptime st = (\<lambda>(issues, severity).
     if uptime_percent st < 100
     then (issues @ [UptimeIssue (uptime_percent st)],
           if uptime_percent st > 90 then Warning else Critical)
     else (issues, severity))"

definition check_restarts :: "stats \<Rightarrow> issue list \<times> severity \<Rightarrow> issue list \<times> severity" where
  "check_restarts st = (\<lambda>(issues, severity).
     if total_restarts st > 0
     then (issues @ [RestartsIssue (total_restarts st)],
           if total_restarts st \<ge> 5 then Critical
           else if total_restarts st \<ge> 3 then Warning
           else severity)
     else (issues, severity))"

definition check_errors :: "stats \<Rightarrow> issue list \<times> severity \<Rightarrow> issue list \<times> severity" where
  "check_errors st = (\<lambda>(issues, severity).
     if stats_errors st \<noteq> []
     then (issues @ [ErrorTypesIssue (length (stats_errors st))],
           if severity = Info then Warning else severity)
     else (issues, severity))"

definition assess :: "stats \<Rightarrow> issue list \<times> severity" where
  "assess st = check_errors st (check_restarts st (check_uptime st ([], Info)))"

text \<open>The dictionary appended to \<open>problems\<close>; the nested \<open>'stats'\<close> dictionary is
  flattened into the three \<open>problem_\<close> fields.\<close>

definition report_problem :: "string \<Rightarrow> stats \<Rightarrow> issue list \<Rightarrow> severity \<Rightarrow> problem" where
  "report_problem n st found level =
     \<lparr>problem_name = n, severity = level, issues = found,
      problem_errors = take 3 (stats_errors st),
      problem_uptime_percent = uptime_percent st,
      problem_restarts = total_restarts st,
      problem_avg_mem_mb = avg_mem_mb st\<rparr>"

fun problems_loop :: "(string \<times> stats) list \<Rightarrow> problem list \<Rightarrow> problem list" where
  "problems_loop [] problems = problems"
| "problems_loop ((n, st) # container_stats) problems =
     (let (issues, severity) = assess st
      in if issues \<noteq> []
         then problems_loop container_stats (problems @ [report_problem n st issues severity])
         else problems_loop container_stats problems)"

fun severity_order :: "severity \<Rightarrow> nat" where
  "severity_order Critical = 0"
| "severity_order Warning = 1"
| "severity_order Info = 2"

text \<open>\<open>list.sort\<close> is stable, as is the insertion sort \<open>sort_key\<close>.\<close>

definition identify_problematic_containers :: "(string \<times> stats) list \<Rightarrow> problem list" where
  "identify_problematic_containers container_stats =
     sort_key (\<lambda>x. severity_order (severity x)) (problems_loop container_stats [])"

text \<open>
  The observations of the specification: how many container records of the window carry
  a given name and are running, or are not running.
\<close>

definition window_records :: "entry list \<Rightarrow> container list" where
  "window_records history = concat (map (\<lambda>e. dict_get (containers e) []) history)"



text \<open>
  "Treated as zero or empty", in the words of the specification: the record in which each
  absent optional key is present with the value zero or the empty list, and the snapshot
  in which the container list is present and every record is completed in this way.
\<close>

definition with_defaults :: "container \<Rightarrow> container" where
  "with_defaults c =
     c\<lparr>restarts := Some (dict_get (restarts c) 0),
       mem_mb := Some (dict_get (mem_mb c) 0),
       container_cpu_percent := Some (dict_get (container_cpu_percent c) 0),
       errors := Some (dict_get (errors c) [])\<rparr>"

definition snapshot_with_defaults :: "entry \<Rightarrow> entry" where
  "snapshot_with_defaults e =
     e\<lparr>containers := Some (map with_defaults (dict_get (containers e) []))\<rparr>"

text \<open>Fixtures for the examples: a container record with the given optional keys only, a
  snapshot with one container, and per-container statistics given by the three values that
  the problem ranker reads.\<close>

definition container_record :: "string option \<Rightarrow> string option \<Rightarrow> container" where
  "container_record n s =
     \<lparr>name = n, status = s, restarts = None, mem_mb = None, container_cpu_percent = None,
      errors = None\<rparr>"

definition snapshot_of :: "container list \<Rightarrow> entry" where
  "snapshot_of cs =
     \<lparr>timestamp = None, cpu_percent = None, ram_percent = None, disks = None,
      containers = Some cs\<rparr>"

definition default_config :: config where
  "default_config =
     \<lparr>reporting = Some \<lparr>top_memory_containers = Some 5, top_cpu_containers = Some 5,
                         max_errors_in_report = Some 10\<rparr>\<rparr>"

definition stats_with :: "string \<Rightarrow> real \<Rightarrow> int \<Rightarrow> string list \<Rightarrow> stats" where
  "stats_with n up r errs =
     \<lparr>stats_name = n, uptime_checks = 0, down_checks = 0, total_restarts = r,
      stats_errors = errs, mem_values = [], cpu_values = [],
      uptime_percent = up, avg_mem_mb = 0, max_mem_mb = 0,
      avg_cpu_percent = 0, max_cpu_percent = 0\<rparr>"

text \<open>A store with the default retention of seven days, for the examples.\<close>

definition week_store :: "entry list \<Rightarrow> HealthStorage" where
  "week_store h = \<lparr>history_file = Document h, retention_days = 7\<rparr>"

section \<open>Properties of the store\<close>








subsection \<open>Age-bounded retention\<close>



subsection \<open>The 24-hour window\<close>

text \<open>
  Claim C4.  The window query has a lower bound only: with the clock at 0, an entry
  stamped one hour in the future is returned by \<open>get_last_24h\<close>, although it lies outside
  \<open>[now - 24h, now]\<close>.
\<close>

theorem get_last_24h_returns_future_entry:
  "get_last_24h (week_store [bare_entry (Some (Naive (0 + timedelta_hours 1)))]) 0
     = Inr [bare_entry (Some (Naive (0 + timedelta_hours 1)))]"
  by (simp add: get_last_24h_def week_store_def load_history_def bare_entry_def
      timedelta_hours_def)

subsection \<open>Entries without a usable timestamp\<close>



subsection \<open>The latest entry after an append\<close>



section \<open>Properties of the threshold check\<close>

lemma check_disks_returns:
  "(\<exists>v'. check_disks th ds v = Inr v') =
     (\<forall>d \<in> set ds. used_percent d \<noteq> None \<and> mount d \<noteq> None)"
  by (induction ds arbitrary: v) (auto split: option.splits)

lemma check_disks_critical:
  "check_disks th ds v = Inr v' \<Longrightarrow>
   set (critical v') = set (critical v) \<union>
     {DiskCritical m u |m u. \<exists>d \<in> set ds. mount d = Some m \<and> used_percent d = Some u
        \<and> dict_get (disk_critical th) 90 \<le> u}"
proof (induction ds arbitrary: v)
  case Nil
  then show ?case by simp
next
  case (Cons d ds)
  from Cons.prems obtain u m where u: "used_percent d = Some u" and m: "mount d = Some m"
    by (auto split: option.splits)
  show ?case
  proof (cases "dict_get (disk_critical th) 90 \<le> u")
    case True
    with Cons.prems u m
    have "check_disks th ds (v\<lparr>critical := critical v @ [DiskCritical m u]\<rparr>) = Inr v'"
      by simp
    from Cons.IH [OF this] True u m show ?thesis
      by auto
  next
    case False
    show ?thesis
    proof (cases "dict_get (disk_warning th) 80 \<le> u")
      case True
      with Cons.prems u m False
      have "check_disks th ds (v\<lparr>warnings := warnings v @ [DiskHigh m u]\<rparr>) = Inr v'"
        by simp
      from Cons.IH [OF this] False u m show ?thesis
        by auto
    next
      case nowarn: False
      with Cons.prems u m False have "check_disks th ds v = Inr v'"
        by simp
      from Cons.IH [OF this] False u m show ?thesis
        by auto
    qed
  qed
qed

lemma check_disks_warnings:
  "check_disks th ds v = Inr v' \<Longrightarrow>
   set (warnings v') = set (warnings v) \<union>
     {DiskHigh m u |m u. \<exists>d \<in> set ds. mount d = Some m \<and> used_percent d = Some u
        \<and> \<not> dict_get (disk_critical th) 90 \<le> u \<and> dict_get (disk_warning th) 80 \<le> u}"
proof (induction ds arbitrary: v)
  case Nil
  then show ?case by simp
next
  case (Cons d ds)
  from Cons.prems obtain u m where u: "used_percent d = Some u" and m: "mount d = Some m"
    by (auto split: option.splits)
  show ?case
  proof (cases "dict_get (disk_critical th) 90 \<le> u")
    case True
    with Cons.prems u m
    have "check_disks th ds (v\<lparr>critical := critical v @ [DiskCritical m u]\<rparr>) = Inr v'"
      by simp
    from Cons.IH [OF this] True u m show ?thesis
      by auto
  next
    case False
    show ?thesis
    proof (cases "dict_get (disk_warning th) 80 \<le> u")
      case True
      with Cons.prems u m False
      have "check_disks th ds (v\<lparr>warnings := warnings v @ [DiskHigh m u]\<rparr>) = Inr v'"
        by simp
      from Cons.IH [OF this] False True u m show ?thesis
        by auto
    next
      case nowarn: False
      with Cons.prems u m False have "check_disks th ds v = Inr v'"
        by simp
      from Cons.IH [OF this] False nowarn u m show ?thesis
        by auto
    qed
  qed
qed

lemma check_cpu_ram_critical:
  "set (critical (check_ram metrics th (check_cpu metrics th \<lparr>warnings = [], critical = []\<rparr>))) =
     {CpuCritical x |x. x = dict_get (cpu_percent metrics) 0 \<and> dict_get (cpu_critical th) 95 \<le> x}
   \<union> {RamCritical x |x. x = dict_get (ram_percent metrics) 0 \<and> dict_get (ram_critical th) 95 \<le> x}"
  by (auto simp: check_cpu_def check_ram_def Let_def)

lemma check_cpu_ram_warnings:
  "set (warnings (check_ram metrics th (check_cpu metrics th \<lparr>warnings = [], critical = []\<rparr>))) =
     {CpuHigh x |x. x = dict_get (cpu_percent metrics) 0 \<and> \<not> dict_get (cpu_critical th) 95 \<le> x
        \<and> dict_get (cpu_warning th) 80 \<le> x}
   \<union> {RamHigh x |x. x = dict_get (ram_percent metrics) 0 \<and> \<not> dict_get (ram_critical th) 95 \<le> x
        \<and> dict_get (ram_warning th) 85 \<le> x}"
  by (auto simp: check_cpu_def check_ram_def Let_def)

lemma check_thresholds_critical:
  assumes "check_thresholds metrics th = Inr v"
  shows "set (critical v) =
     {CpuCritical x |x. x = dict_get (cpu_percent metrics) 0 \<and> dict_get (cpu_critical th) 95 \<le> x}
   \<union> {RamCritical x |x. x = dict_get (ram_percent metrics) 0 \<and> dict_get (ram_critical th) 95 \<le> x}
   \<union> {DiskCritical m u |m u. \<exists>d \<in> set (dict_get (disks metrics) []).
        mount d = Some m \<and> used_percent d = Some u \<and> dict_get (disk_critical th) 90 \<le> u}"
  using check_disks_critical [OF assms [unfolded check_thresholds_def Let_def]]
  unfolding check_cpu_ram_critical .

lemma check_thresholds_warnings:
  assumes "check_thresholds metrics th = Inr v"
  shows "set (warnings v) =
     {CpuHigh x |x. x = dict_get (cpu_percent metrics) 0 \<and> \<not> dict_get (cpu_critical th) 95 \<le> x
        \<and> dict_get (cpu_warning th) 80 \<le> x}
   \<union> {RamHigh x |x. x = dict_get (ram_percent metrics) 0 \<and> \<not> dict_get (ram_critical th) 95 \<le> x
        \<and> dict_get (ram_warning th) 85 \<le> x}
   \<union> {DiskHigh m u |m u. \<exists>d \<in> set (dict_get (disks metrics) []).
        mount d = Some m \<and> used_percent d = Some u
        \<and> \<not> dict_get (disk_critical th) 90 \<le> u \<and> dict_get (disk_warning th) 80 \<le> u}"
  using check_disks_warnings [OF assms [unfolded check_thresholds_def Let_def]]
  unfolding check_cpu_ram_warnings .

lemma check_thresholds_returns:
  "(\<exists>v. check_thresholds metrics th = Inr v) =
     (\<forall>d \<in> set (dict_get (disks metrics) []). used_percent d \<noteq> None \<and> mount d \<noteq> None)"
  unfolding check_thresholds_def Let_def by (rule check_disks_returns)

subsection \<open>Classification against configured levels\<close>

text \<open>
  Claim C7.  On a snapshot whose disk records have their keys, \<open>check_thresholds\<close> returns,
  and for a metric whose two levels are configured the report follows the classification
  of the specification: the metric's critical message is in \<open>critical\<close> exactly when its
  value classifies as critical, its warning message is in \<open>warnings\<close> exactly when it
  classifies as warning, and otherwise nothing is reported for it.  This holds for CPU, for
  RAM, and for every disk record on its own value, whatever the other disks report.  The
  examples: CPU 96, 82 and 50 against the levels 80 and 95.
\<close>

theorem check_thresholds_classifies:
  assumes "\<forall>d \<in> set (dict_get (disks metrics) []). used_percent d \<noteq> None \<and> mount d \<noteq> None"
  shows "\<exists>v. check_thresholds metrics th = Inr v
     \<and> (\<forall>w c. cpu_warning th = Some w \<and> cpu_critical th = Some c \<longrightarrow>
          (\<forall>x. (CpuCritical x \<in> set (critical v)) =
                 (x = dict_get (cpu_percent metrics) 0 \<and> spec_classify x w c = Some Critical))
        \<and> (\<forall>x. (CpuHigh x \<in> set (warnings v)) =
                 (x = dict_get (cpu_percent metrics) 0 \<and> spec_classify x w c = Some Warning)))
     \<and> (\<forall>w c. ram_warning th = Some w \<and> ram_critical th = Some c \<longrightarrow>
          (\<forall>x. (RamCritical x \<in> set (critical v)) =
                 (x = dict_get (ram_percent metrics) 0 \<and> spec_classify x w c = Some Critical))
        \<and> (\<forall>x. (RamHigh x \<in> set (warnings v)) =
                 (x = dict_get (ram_percent metrics) 0 \<and> spec_classify x w c = Some Warning)))
     \<and> (\<forall>w c. disk_warning th = Some w \<and> disk_critical th = Some c \<longrightarrow>
          (\<forall>m u. (DiskCritical m u \<in> set (critical v)) =
                 ((\<exists>d \<in> set (dict_get (disks metrics) []). mount d = Some m \<and> used_percent d = Some u)
                   \<and> spec_classify u w c = Some Critical))
        \<and> (\<forall>m u. (DiskHigh m u \<in> set (warnings v)) =
                 ((\<exists>d \<in> set (dict_get (disks metrics) []). mount d = Some m \<and> used_percent d = Some u)
                   \<and> spec_classify u w c = Some Warning)))
     \<and> (\<forall>x m. CpuCritical x \<notin> set (warnings v) \<and> RamCritical x \<notin> set (warnings v)
              \<and> DiskCritical m x \<notin> set (warnings v) \<and> CpuHigh x \<notin> set (critical v)
              \<and> RamHigh x \<notin> set (critical v) \<and> DiskHigh m x \<notin> set (critical v))"
proof -
  from assms obtain v where run: "check_thresholds metrics th = Inr v"
    using check_thresholds_returns [of metrics th] by blast
  note crit = check_thresholds_critical [OF run]
  note warn = check_thresholds_warnings [OF run]
  have cpu: "\<forall>w c. cpu_warning th = Some w \<and> cpu_critical th = Some c \<longrightarrow>
          (\<forall>x. (CpuCritical x \<in> set (critical v)) =
                 (x = dict_get (cpu_percent metrics) 0 \<and> spec_classify x w c = Some Critical))
        \<and> (\<forall>x. (CpuHigh x \<in> set (warnings v)) =
                 (x = dict_get (cpu_percent metrics) 0 \<and> spec_classify x w c = Some Warning))"
    unfolding crit warn by (auto simp: spec_classify_def dict_get_def)
  have ram: "\<forall>w c. ram_warning th = Some w \<and> ram_critical th = Some c \<longrightarrow>
          (\<forall>x. (RamCritical x \<in> set (critical v)) =
                 (x = dict_get (ram_percent metrics) 0 \<and> spec_classify x w c = Some Critical))
        \<and> (\<forall>x. (RamHigh x \<in> set (warnings v)) =
                 (x = dict_get (ram_percent metrics) 0 \<and> spec_classify x w c = Some Warning))"
    unfolding crit warn by (auto simp: spec_classify_def dict_get_def)
  have disk: "\<forall>w c. disk_warning th = Some w \<and> disk_critical th = Some c \<longrightarrow>
          (\<forall>m u. (DiskCritical m u \<in> set (critical v)) =
                 ((\<exists>d \<in> set (dict_get (disks metrics) []). mount d = Some m \<and> used_percent d = Some u)
                   \<and> spec_classify u w c = Some Critical))
        \<and> (\<forall>m u. (DiskHigh m u \<in> set (warnings v)) =
                 ((\<exists>d \<in> set (dict_get (disks metrics) []). mount d = Some m \<and> used_percent d = Some u)
                   \<and> spec_classify u w c = Some Warning))"
    unfolding crit warn by (auto simp: spec_classify_def dict_get_def)
  have bucket: "\<forall>x m. CpuCritical x \<notin> set (warnings v) \<and> RamCritical x \<notin> set (warnings v)
              \<and> DiskCritical m x \<notin> set (warnings v) \<and> CpuHigh x \<notin> set (critical v)
              \<and> RamHigh x \<notin> set (critical v) \<and> DiskHigh m x \<notin> set (critical v)"
    unfolding crit warn by simp
  from run cpu ram disk bucket show ?thesis
    by blast
qed


theorem check_thresholds_classifies_witness:
  "(\<exists>v. check_thresholds
          (gauges 96 [\<lparr>mount = Some ''/'', used_percent = Some 95\<rparr>,
                      \<lparr>mount = Some ''/data'', used_percent = Some 50\<rparr>]) default_thresholds = Inr v
        \<and> CpuCritical 96 \<in> set (critical v) \<and> CpuHigh 96 \<notin> set (warnings v)
        \<and> DiskCritical ''/'' 95 \<in> set (critical v)
        \<and> DiskHigh ''/data'' 50 \<notin> set (warnings v)
        \<and> DiskCritical ''/data'' 50 \<notin> set (critical v))
   \<and> (\<exists>v. check_thresholds (gauges 82 []) default_thresholds = Inr v
        \<and> CpuHigh 82 \<in> set (warnings v) \<and> CpuCritical 82 \<notin> set (critical v))
   \<and> check_thresholds (gauges 50 []) default_thresholds = Inr \<lparr>warnings = [], critical = []\<rparr>"
proof -
  let ?ds = "[\<lparr>mount = Some ''/'', used_percent = Some 95\<rparr>,
              \<lparr>mount = Some ''/data'', used_percent = Some (50::real)\<rparr>]"
  have wf: "\<forall>d \<in> set (dict_get (disks (gauges 96 ?ds)) []). used_percent d \<noteq> None \<and> mount d \<noteq> None"
    by (simp add: gauges_def dict_get_def)
  have wf': "\<forall>d \<in> set (dict_get (disks (gauges 82 [])) []). used_percent d \<noteq> None \<and> mount d \<noteq> None"
    by (simp add: gauges_def dict_get_def)
  have first: "\<exists>v. check_thresholds (gauges 96 ?ds) default_thresholds = Inr v
        \<and> CpuCritical 96 \<in> set (critical v) \<and> CpuHigh 96 \<notin> set (warnings v)
        \<and> DiskCritical ''/'' 95 \<in> set (critical v)
        \<and> DiskHigh ''/data'' 50 \<notin> set (warnings v)
        \<and> DiskCritical ''/data'' 50 \<notin> set (critical v)"
    using check_thresholds_classifies [OF wf, of default_thresholds]
    by (auto simp: gauges_def dict_get_def spec_classify_def default_thresholds_def)
  have second: "\<exists>v. check_thresholds (gauges 82 []) default_thresholds = Inr v
        \<and> CpuHigh 82 \<in> set (warnings v) \<and> CpuCritical 82 \<notin> set (critical v)"
    using check_thresholds_classifies [OF wf', of default_thresholds]
    by (auto simp: gauges_def dict_get_def spec_classify_def default_thresholds_def)
  have third: "check_thresholds (gauges 50 []) default_thresholds
      = Inr \<lparr>warnings = [], critical = []\<rparr>"
    by (simp add: check_thresholds_def check_cpu_def check_ram_def gauges_def dict_get_def
        default_thresholds_def)
  from first second third show ?thesis
    by blast
qed

subsection \<open>Levels absent from the configuration\<close>

text \<open>
  Claim C2, as stated, fails: with no level configured at all, a CPU gauge of 96 is
  reported critical, against the built-in level 95.
\<close>

theorem absent_levels_fall_back:
  "cpu_warning no_thresholds = None \<and> cpu_critical no_thresholds = None
   \<and> check_thresholds (gauges 96 []) no_thresholds
       = Inr \<lparr>warnings = [], critical = [CpuCritical 96]\<rparr>"
  by (simp add: check_thresholds_def check_cpu_def check_ram_def gauges_def dict_get_def
      no_thresholds_def)

text \<open>
  Claim C2, amended.  A metric for which the configuration supplies neither level is
  checked against the built-in levels (CPU 80 and 95, RAM 85 and 95, disks 80 and 90): it
  is reported critical from the built-in critical level on, as a warning between the two
  built-in levels, and not at all below the built-in warning level.
\<close>

theorem check_thresholds_fallback_levels:
  assumes "\<forall>d \<in> set (dict_get (disks metrics) []). used_percent d \<noteq> None \<and> mount d \<noteq> None"
  shows "\<exists>v. check_thresholds metrics th = Inr v
     \<and> (cpu_warning th = None \<and> cpu_critical th = None \<longrightarrow>
          (\<forall>x. (CpuCritical x \<in> set (critical v)) = (x = dict_get (cpu_percent metrics) 0 \<and> 95 \<le> x))
        \<and> (\<forall>x. (CpuHigh x \<in> set (warnings v)) =
                 (x = dict_get (cpu_percent metrics) 0 \<and> 80 \<le> x \<and> x < 95)))
     \<and> (ram_warning th = None \<and> ram_critical th = None \<longrightarrow>
          (\<forall>x. (RamCritical x \<in> set (critical v)) = (x = dict_get (ram_percent metrics) 0 \<and> 95 \<le> x))
        \<and> (\<forall>x. (RamHigh x \<in> set (warnings v)) =
                 (x = dict_get (ram_percent metrics) 0 \<and> 85 \<le> x \<and> x < 95)))
     \<and> (disk_warning th = None \<and> disk_critical th = None \<longrightarrow>
          (\<forall>m u. (DiskCritical m u \<in> set (critical v)) =
                 ((\<exists>d \<in> set (dict_get (disks metrics) []). mount d = Some m \<and> used_percent d = Some u)
                   \<and> 90 \<le> u))
        \<and> (\<forall>m u. (DiskHigh m u \<in> set (warnings v)) =
                 ((\<exists>d \<in> set (dict_get (disks metrics) []). mount d = Some m \<and> used_percent d = Some u)
                   \<and> 80 \<le> u \<and> u < 90)))"
proof -
  from assms obtain v where run: "check_thresholds metrics th = Inr v"
    using check_thresholds_returns [of metrics th] by blast
  note crit = check_thresholds_critical [OF run]
  note warn = check_thresholds_warnings [OF run]
  have cpu: "cpu_warning th = None \<and> cpu_critical th = None \<longrightarrow>
          (\<forall>x. (CpuCritical x \<in> set (critical v)) = (x = dict_get (cpu_percent metrics) 0 \<and> 95 \<le> x))
        \<and> (\<forall>x. (CpuHigh x \<in> set (warnings v)) =
                 (x = dict_get (cpu_percent metrics) 0 \<and> 80 \<le> x \<and> x < 95))"
    unfolding crit warn by (auto simp: dict_get_def)
  have ram: "ram_warning th = None \<and> ram_critical th = None \<longrightarrow>
          (\<forall>x. (RamCritical x \<in> set (critical v)) = (x = dict_get (ram_percent metrics) 0 \<and> 95 \<le> x))
        \<and> (\<forall>x. (RamHigh x \<in> set (warnings v)) =
                 (x = dict_get (ram_percent metrics) 0 \<and> 85 \<le> x \<and> x < 95))"
    unfolding crit warn by (auto simp: dict_get_def)
  have disk: "disk_warning th = None \<and> disk_critical th = None \<longrightarrow>
          (\<forall>m u. (DiskCritical m u \<in> set (critical v)) =
                 ((\<exists>d \<in> set (dict_get (disks metrics) []). mount d = Some m \<and> used_percent d = Some u)
                   \<and> 90 \<le> u))
        \<and> (\<forall>m u. (DiskHigh m u \<in> set (warnings v)) =
                 ((\<exists>d \<in> set (dict_get (disks metrics) []). mount d = Some m \<and> used_percent d = Some u)
                   \<and> 80 \<le> u \<and> u < 90))"
    unfolding crit warn by (auto simp: dict_get_def)
  from run cpu ram disk show ?thesis
    by blast
qed

theorem check_thresholds_fallback_levels_witness:
  "cpu_warning no_thresholds = None \<and> cpu_critical no_thresholds = None
   \<and> (\<exists>v. check_thresholds (gauges 82 [\<lparr>mount = Some ''/'', used_percent = Some 50\<rparr>])
             no_thresholds = Inr v
        \<and> CpuHigh 82 \<in> set (warnings v) \<and> CpuCritical 82 \<notin> set (critical v)
        \<and> DiskHigh ''/'' 50 \<notin> set (warnings v) \<and> DiskCritical ''/'' 50 \<notin> set (critical v))"
proof -
  let ?m = "gauges 82 [\<lparr>mount = Some ''/'', used_percent = Some 50\<rparr>]"
  have none: "cpu_warning no_thresholds = None \<and> cpu_critical no_thresholds = None"
    "disk_warning no_thresholds = None \<and> disk_critical no_thresholds = None"
    by (simp_all add: no_thresholds_def)
  have wf: "\<forall>d \<in> set (dict_get (disks ?m) []). used_percent d \<noteq> None \<and> mount d \<noteq> None"
    by (simp add: gauges_def dict_get_def)
  have "\<exists>v. check_thresholds ?m no_thresholds = Inr v
        \<and> CpuHigh 82 \<in> set (warnings v) \<and> CpuCritical 82 \<notin> set (critical v)
        \<and> DiskHigh ''/'' 50 \<notin> set (warnings v) \<and> DiskCritical ''/'' 50 \<notin> set (critical v)"
    using check_thresholds_fallback_levels [OF wf, of no_thresholds]
    by (auto simp: gauges_def dict_get_def no_thresholds_def)
  with none(1) show ?thesis
    by blast
qed

section \<open>Properties of the problem ranker\<close>

lemma problems_loop_set:
  "set (problems_loop container_stats problems) =
     set problems \<union>
     (\<lambda>(n, st). report_problem n st (fst (assess st)) (snd (assess st))) `
       {kv \<in> set container_stats. fst (assess (snd kv)) \<noteq> []}"
proof (induction container_stats arbitrary: problems)
  case Nil
  then show ?case by simp
next
  case (Cons kv container_stats)
  obtain n st where kv: "kv = (n, st)"
    by (cases kv)
  obtain found level where a: "assess st = (found, level)"
    by (cases "assess st")
  show ?case
  proof (cases "found = []")
    case True
    with a have "{x \<in> set (kv # container_stats). fst (assess (snd x)) \<noteq> []} =
        {x \<in> set container_stats. fst (assess (snd x)) \<noteq> []}"
      unfolding kv by auto
    with True a show ?thesis
      unfolding kv by (simp add: Cons.IH)
  next
    case False
    with a have "{x \<in> set (kv # container_stats). fst (assess (snd x)) \<noteq> []} =
        insert (n, st) {x \<in> set container_stats. fst (assess (snd x)) \<noteq> []}"
      unfolding kv by auto
    with False a show ?thesis
      unfolding kv by (simp add: Cons.IH)
  qed
qed

lemma identify_set:
  "set (identify_problematic_containers container_stats) =
     (\<lambda>(n, st). report_problem n st (fst (assess st)) (snd (assess st))) `
       {kv \<in> set container_stats. fst (assess (snd kv)) \<noteq> []}"
  unfolding identify_problematic_containers_def by (simp add: problems_loop_set)

lemma assess_uptime:
  assumes "uptime_percent st < 100" and "total_restarts st < 3"
  shows "fst (assess st) \<noteq> []"
    and "snd (assess st) = (if uptime_percent st > 90 then Warning else Critical)"
  using assms
  by (auto simp: assess_def check_uptime_def check_restarts_def check_errors_def)

subsection \<open>Severity after the restart check\<close>

text \<open>
  Claim C1.  For a container with an uptime of 50 percent and 3 restarts, the uptime check
  assigns critical, the restart check then assigns warning, and the container is reported
  with severity warning.
\<close>

theorem restart_warning_lowers_critical:
  "snd (check_uptime (stats_with ''web'' 50 3 []) ([], Info)) = Critical
   \<and> snd (check_restarts (stats_with ''web'' 50 3 [])
            (check_uptime (stats_with ''web'' 50 3 []) ([], Info))) = Warning
   \<and> identify_problematic_containers [(''web'', stats_with ''web'' 50 3 [])]
       = [\<lparr>problem_name = ''web'', severity = Warning,
           issues = [UptimeIssue 50, RestartsIssue 3], problem_errors = [],
           problem_uptime_percent = 50, problem_restarts = 3, problem_avg_mem_mb = 0\<rparr>]"
  by (simp add: identify_problematic_containers_def assess_def check_uptime_def
      check_restarts_def check_errors_def stats_with_def report_problem_def)

subsection \<open>The bands of the uptime check\<close>

text \<open>
  Claim C6, as stated, fails: a container whose uptime is exactly 90 percent, without
  restarts or errors, is reported critical.
\<close>

theorem uptime_90_is_critical:
  "identify_problematic_containers [(''web'', stats_with ''web'' 90 0 [])]
     = [\<lparr>problem_name = ''web'', severity = Critical,
         issues = [UptimeIssue 90], problem_errors = [],
         problem_uptime_percent = 90, problem_restarts = 0, problem_avg_mem_mb = 0\<rparr>]"
  by (simp add: identify_problematic_containers_def assess_def check_uptime_def
      check_restarts_def check_errors_def stats_with_def report_problem_def)

text \<open>
  Claim C6, amended.  The uptime check assigns warning to an uptime above 90 and below
  100 percent and critical to an uptime of 90 percent or less; with fewer than 3 restarts
  this is the severity with which the container is reported.
\<close>

theorem uptime_severity_bands:
  assumes "(n, st) \<in> set container_stats"
    and "uptime_percent st < 100"
    and "total_restarts st < 3"
  shows "snd (check_uptime st (found, Info)) = (if uptime_percent st > 90 then Warning else Critical)
     \<and> (\<exists>p \<in> set (identify_problematic_containers container_stats).
           problem_name p = n \<and> problem_uptime_percent p = uptime_percent st
           \<and> severity p = (if uptime_percent st > 90 then Warning else Critical))"
proof -
  let ?p = "report_problem n st (fst (assess st)) (snd (assess st))"
  have "(n, st) \<in> {kv \<in> set container_stats. fst (assess (snd kv)) \<noteq> []}"
    using assms(1) assess_uptime(1) [OF assms(2,3)] by simp
  then have "?p \<in> set (identify_problematic_containers container_stats)"
    unfolding identify_set by (rule image_eqI [rotated]) simp
  moreover have "problem_name ?p = n" "problem_uptime_percent ?p = uptime_percent st"
    by (simp_all add: report_problem_def)
  moreover have "severity ?p = (if uptime_percent st > 90 then Warning else Critical)"
    using assess_uptime(2) [OF assms(2,3)] by (simp add: report_problem_def)
  moreover have "snd (check_uptime st (found, Info)) =
      (if uptime_percent st > 90 then Warning else Critical)"
    using assms(2) by (simp add: check_uptime_def)
  ultimately show ?thesis
    by blast
qed

theorem uptime_severity_bands_witness:
  "(''web'', stats_with ''web'' 90.5 0 []) \<in> set [(''web'', stats_with ''web'' 90.5 0 [])]
   \<and> uptime_percent (stats_with ''web'' 90.5 0 []) < 100
   \<and> total_restarts (stats_with ''web'' 90.5 0 []) < 3
   \<and> snd (check_uptime (stats_with ''web'' 90.5 0 []) ([], Info)) = Warning
   \<and> (\<exists>p \<in> set (identify_problematic_containers [(''web'', stats_with ''web'' 90.5 0 [])]).
         problem_name p = ''web'' \<and> severity p = Warning)"
proof -
  let ?st = "stats_with ''web'' 90.5 0 []"
  have h1: "(''web'', ?st) \<in> set [(''web'', ?st)]"
    by simp
  have h2: "uptime_percent ?st < 100"
    by (simp add: stats_with_def)
  have h3: "total_restarts ?st < 3"
    by (simp add: stats_with_def)
  have up: "uptime_percent ?st > 90"
    by (simp add: stats_with_def)
  from uptime_severity_bands [OF h1 h2 h3, of "[]"] up h1 h2 h3
  show ?thesis
    by auto
qed

section \<open>Properties of the container health aggregation\<close>

lemma observe_returns:
  "(\<exists>cs'. observe c cs = Inr cs') = (name c \<noteq> None \<and> status c \<noteq> None)"
  by (auto simp: observe_def Let_def split: option.splits)

lemma observe_containers_returns:
  "(\<exists>cs'. observe_containers xs cs = Inr cs') =
     (\<forall>c \<in> set xs. name c \<noteq> None \<and> status c \<noteq> None)"
proof (induction xs arbitrary: cs)
  case Nil
  then show ?case by simp
next
  case (Cons c xs)
  show ?case
  proof (cases "observe c cs")
    case (Inl err)
    with observe_returns [of c cs] show ?thesis
      by auto
  next
    case (Inr cs1)
    with observe_returns [of c cs] Cons.IH [of cs1] show ?thesis
      by auto
  qed
qed

lemma observe_history_returns:
  "(\<exists>cs'. observe_history history cs = Inr cs') =
     (\<forall>c \<in> set (window_records history). name c \<noteq> None \<and> status c \<noteq> None)"
proof (induction history arbitrary: cs)
  case Nil
  then show ?case by (simp add: window_records_def)
next
  case (Cons e history)
  show ?case
  proof (cases "observe_containers (dict_get (containers e) []) cs")
    case (Inl err)
    with observe_containers_returns [of "dict_get (containers e) []" cs] show ?thesis
      by (auto simp: window_records_def)
  next
    case (Inr cs1)
    with observe_containers_returns [of "dict_get (containers e) []" cs] Cons.IH [of cs1]
    show ?thesis
      by (auto simp: window_records_def)
  qed
qed

lemma dict_set_not_empty: "dict_set k v kvs \<noteq> []"
  by (cases kvs) auto

lemma observe_not_empty: "observe c cs = Inr cs' \<Longrightarrow> cs' \<noteq> []"
  by (auto simp: observe_def Let_def dict_set_not_empty split: option.splits)

lemma observe_containers_empty:
  "observe_containers xs cs = Inr cs' \<Longrightarrow> (cs' = []) = (xs = [] \<and> cs = [])"
proof (induction xs arbitrary: cs)
  case Nil
  then show ?case by auto
next
  case (Cons c xs)
  from Cons.prems obtain cs1 where step: "observe c cs = Inr cs1"
    and rest: "observe_containers xs cs1 = Inr cs'"
    by (auto split: sum.splits)
  from Cons.IH [OF rest] observe_not_empty [OF step] show ?case
    by simp
qed

lemma observe_history_empty:
  "observe_history history cs = Inr cs' \<Longrightarrow>
     (cs' = []) = (window_records history = [] \<and> cs = [])"
proof (induction history arbitrary: cs)
  case Nil
  then show ?case by (auto simp: window_records_def)
next
  case (Cons e history)
  from Cons.prems obtain cs1 where step: "observe_containers (dict_get (containers e) []) cs = Inr cs1"
    and rest: "observe_history history cs1 = Inr cs'"
    by (auto split: sum.splits)
  from Cons.IH [OF rest] observe_containers_empty [OF step] show ?case
    by (auto simp: window_records_def)
qed

lemma analyze_returns:
  "(\<exists>container_stats. analyze_container_health history cfg = Inr container_stats) =
     ((\<forall>c \<in> set (window_records history). name c \<noteq> None \<and> status c \<noteq> None)
      \<and> (window_records history = [] \<or> reporting cfg \<noteq> None))"
proof (cases "observe_history history []")
  case (Inl err)
  with observe_history_returns [of history "[]"] show ?thesis
    by (auto simp: analyze_container_health_def)
next
  case (Inr cs)
  with observe_history_returns [of history "[]"] observe_history_empty [OF Inr] show ?thesis
    by (auto simp: analyze_container_health_def split: option.splits)
qed


lemma with_defaults_reads:
  "name (with_defaults c) = name c"
  "status (with_defaults c) = status c"
  "dict_get (restarts (with_defaults c)) 0 = dict_get (restarts c) 0"
  "append_sample (mem_mb (with_defaults c)) values = append_sample (mem_mb c) values"
  "append_sample (container_cpu_percent (with_defaults c)) values =
     append_sample (container_cpu_percent c) values"
  "dict_get (errors (with_defaults c)) [] = dict_get (errors c) []"
  by (simp_all add: with_defaults_def dict_get_def append_sample_def split: option.splits)

lemma observe_with_defaults: "observe (with_defaults c) cs = observe c cs"
  unfolding observe_def with_defaults_reads ..

lemma observe_containers_with_defaults:
  "observe_containers (map with_defaults xs) cs = observe_containers xs cs"
  by (induction xs arbitrary: cs) (simp_all add: observe_with_defaults split: sum.splits)

lemma observe_history_with_defaults:
  "observe_history (map snapshot_with_defaults history) cs = observe_history history cs"
  by (induction history arbitrary: cs)
    (simp_all add: snapshot_with_defaults_def dict_get_def observe_containers_with_defaults
      split: sum.splits)

lemma observe_error: "observe c cs = Inl err \<Longrightarrow> err = KeyError"
  by (auto simp: observe_def Let_def split: option.splits)

lemma observe_containers_error: "observe_containers xs cs = Inl err \<Longrightarrow> err = KeyError"
  by (induction xs arbitrary: cs) (auto split: sum.splits dest: observe_error)

lemma observe_history_error: "observe_history history cs = Inl err \<Longrightarrow> err = KeyError"
  by (induction history arbitrary: cs) (auto split: sum.splits dest: observe_containers_error)

lemma analyze_error: "analyze_container_health history cfg = Inl err \<Longrightarrow> err = KeyError"
  by (auto simp: analyze_container_health_def
      split: sum.splits if_splits option.splits dest: observe_history_error)

subsection \<open>Records with absent keys\<close>

text \<open>
  Claim C9, as stated, fails: a container record without the key \<open>'status'\<close>, or without
  the key \<open>'name'\<close>, makes the aggregation raise \<open>KeyError\<close>.
\<close>

theorem missing_status_raises:
  "status (container_record (Some ''web'') None) = None
   \<and> analyze_container_health [snapshot_of [container_record (Some ''web'') None]] default_config
       = Inl KeyError
   \<and> name (container_record None (Some ''running'')) = None
   \<and> analyze_container_health [snapshot_of [container_record None (Some ''running'')]]
        default_config = Inl KeyError"
  by (simp add: analyze_container_health_def observe_def container_record_def snapshot_of_def
      dict_get_def)

text \<open>
  Claim C9, amended.  The aggregation treats an absent container list as empty and the
  absent keys \<open>'restarts'\<close>, \<open>'mem_mb'\<close>, \<open>'cpu_percent'\<close> and \<open>'errors'\<close> of a record as
  zero or empty: its result is the one on the window completed with these defaults.  The
  keys \<open>'name'\<close> and \<open>'status'\<close> are required: the aggregation returns exactly when every
  record of the window has both (and the configuration has its \<open>'reporting'\<close> section, or
  the window has no record), and it raises \<open>KeyError\<close> when a record lacks one of them.
\<close>

theorem analyze_container_health_optional_keys:
  "analyze_container_health (map snapshot_with_defaults history) cfg
     = analyze_container_health history cfg
   \<and> ((\<exists>container_stats. analyze_container_health history cfg = Inr container_stats) =
        ((\<forall>c \<in> set (window_records history). name c \<noteq> None \<and> status c \<noteq> None)
         \<and> (window_records history = [] \<or> reporting cfg \<noteq> None)))
   \<and> ((\<exists>c \<in> set (window_records history). name c = None \<or> status c = None) \<longrightarrow>
        analyze_container_health history cfg = Inl KeyError)"
proof -
  have same: "analyze_container_health (map snapshot_with_defaults history) cfg
      = analyze_container_health history cfg"
    by (simp add: analyze_container_health_def observe_history_with_defaults)
  have raises: "analyze_container_health history cfg = Inl KeyError"
    if "\<exists>c \<in> set (window_records history). name c = None \<or> status c = None"
  proof (cases "analyze_container_health history cfg")
    case (Inl err)
    with analyze_error [OF Inl] show ?thesis
      by simp
  next
    case (Inr container_stats)
    with analyze_returns [of history cfg] that show ?thesis
      by blast
  qed
  from same analyze_returns [of history cfg] raises show ?thesis
    by blast
qed

theorem analyze_container_health_optional_keys_witness:
  "\<not> (\<exists>c \<in> set (window_records [snapshot_of [container_record (Some ''web'') (Some ''running'')]]).
         name c = None \<or> status c = None)
   \<and> reporting default_config \<noteq> None
   \<and> (\<exists>container_stats.
         analyze_container_health [snapshot_of [container_record (Some ''web'') (Some ''running'')]]
           default_config = Inr container_stats)"
proof -
  let ?h = "[snapshot_of [container_record (Some ''web'') (Some ''running'')]]"
  have records: "window_records ?h = [container_record (Some ''web'') (Some ''running'')]"
    by (simp add: window_records_def snapshot_of_def dict_get_def)
  have keys: "\<forall>c \<in> set (window_records ?h). name c \<noteq> None \<and> status c \<noteq> None"
    unfolding records by (simp add: container_record_def)
  have cfg: "reporting default_config \<noteq> None"
    by (simp add: default_config_def)
  from analyze_container_health_optional_keys [of ?h default_config] keys cfg
  have "\<exists>container_stats. analyze_container_health ?h default_config = Inr container_stats"
    by blast
  with keys cfg show ?thesis
    by blast
qed

subsection \<open>The uptime percentage\<close>























end
